theory Spec2Isabelle
  imports Complex_Main
begin

section \<open>JavaScript values\<close>

text \<open>
  The front-ends read backend responses as parsed JSON and test fields with JavaScript
  truthiness (\<^verbatim>\<open>!x\<close>, \<^verbatim>\<open>x || y\<close>, \<^verbatim>\<open>x && y\<close>). A parsed JSON value is
  null, a boolean, a number, a string, an array or an object. An object keeps its
  members as an association list in document order. An absent property
  (\<^verbatim>\<open>undefined\<close>) is \<open>None\<close> of an option type.
\<close>

datatype jsnum = Finite rat | PosInfinity | NegInfinity

datatype json =
    JNull
  | JBool bool
  | JNum jsnum
  | JStr string
  | JArr "json list"
  | JObj "(string \<times> json) list"

text \<open>ToBoolean: null, false, zero and the empty string are falsy; every array and
  object is truthy, the empty ones too.\<close>

fun truthy :: "json \<Rightarrow> bool" where
  "truthy JNull = False"
| "truthy (JBool b) = b"
| "truthy (JNum n) = (n \<noteq> Finite 0)"
| "truthy (JStr s) = (s \<noteq> [])"
| "truthy (JArr xs) = True"
| "truthy (JObj kvs) = True"

definition truthy_opt :: "json option \<Rightarrow> bool" where
  "truthy_opt v = (case v of None \<Rightarrow> False | Some j \<Rightarrow> truthy j)"

definition truthy_str :: "string option \<Rightarrow> bool" where
  "truthy_str v = (case v of None \<Rightarrow> False | Some s \<Rightarrow> s \<noteq> [])"

text \<open>\<^verbatim>\<open>s || d\<close> on an optional string.\<close>

definition or_str :: "string option \<Rightarrow> string \<Rightarrow> string" where
  "or_str v d = (case v of None \<Rightarrow> d | Some s \<Rightarrow> if s = [] then d else s)"

text \<open>\<^verbatim>\<open>xs || []\<close> on an optional array: an array is truthy, so only absence
  gives the default.\<close>

definition or_empty :: "'a list option \<Rightarrow> 'a list" where
  "or_empty v = (case v of None \<Rightarrow> [] | Some xs \<Rightarrow> xs)"

text \<open>Property read \<^verbatim>\<open>v.k\<close> on a parsed value that is not null: an object gives
  its member (the last one of that name, as \<^verbatim>\<open>JSON.parse\<close> keeps it), everything
  else has no such property.\<close>

fun getProp :: "json \<Rightarrow> string \<Rightarrow> json option" where
  "getProp (JObj kvs) k = map_of (rev kvs) k"
| "getProp v k = None"

text \<open>
  Text is a list of bytes, the UTF-8 form of the JavaScript string.
  \<^verbatim>\<open>String.prototype.trim\<close> strips white space and line terminators from both ends:
  U+0009 to U+000D and U+0020 (one byte each), U+00A0 (two bytes), and U+1680, U+2000 to
  U+200A, U+2028, U+2029, U+202F, U+205F, U+3000 and U+FEFF (three bytes each).
\<close>

definition js_space :: "char \<Rightarrow> bool" where
  "js_space c = (c \<in> set [CHR 0x09, CHR 0x0A, CHR 0x0B, CHR 0x0C, CHR 0x0D, CHR 0x20])"

definition js_space2 :: "char \<Rightarrow> char \<Rightarrow> bool" where
  "js_space2 a b = (a = CHR 0xC2 \<and> b = CHR 0xA0)"

definition js_space3 :: "char \<Rightarrow> char \<Rightarrow> char \<Rightarrow> bool" where
  "js_space3 a b c =
     ((a = CHR 0xE1 \<and> b = CHR 0x9A \<and> c = CHR 0x80)
      \<or> (a = CHR 0xE2 \<and> b = CHR 0x80
          \<and> c \<in> set [CHR 0x80, CHR 0x81, CHR 0x82, CHR 0x83, CHR 0x84, CHR 0x85, CHR 0x86,
                       CHR 0x87, CHR 0x88, CHR 0x89, CHR 0x8A, CHR 0xA8, CHR 0xA9, CHR 0xAF])
      \<or> (a = CHR 0xE2 \<and> b = CHR 0x81 \<and> c = CHR 0x9F)
      \<or> (a = CHR 0xE3 \<and> b = CHR 0x80 \<and> c = CHR 0x80)
      \<or> (a = CHR 0xEF \<and> b = CHR 0xBB \<and> c = CHR 0xBF))"

text \<open>\<^verbatim>\<open>trimStart\<close>: white space is dropped from the front, character by
  character, until a character that is none.\<close>

fun trimStart :: "string \<Rightarrow> string" where
  "trimStart [] = []"
| "trimStart [a] = (if js_space a then [] else [a])"
| "trimStart [a, b] =
     (if js_space a then trimStart [b] else if js_space2 a b then [] else [a, b])"
| "trimStart (a # b # c # s) =
     (if js_space a then trimStart (b # c # s)
      else if js_space2 a b then trimStart (c # s)
      else if js_space3 a b c then trimStart s
      else a # b # c # s)"

text \<open>The same from the end, on the reversed text: the last byte comes first.\<close>

fun trimEndRev :: "string \<Rightarrow> string" where
  "trimEndRev [] = []"
| "trimEndRev [c] = (if js_space c then [] else [c])"
| "trimEndRev [c, b] =
     (if js_space c then trimEndRev [b] else if js_space2 b c then [] else [c, b])"
| "trimEndRev (c # b # a # s) =
     (if js_space c then trimEndRev (b # a # s)
      else if js_space2 b c then trimEndRev (a # s)
      else if js_space3 a b c then trimEndRev s
      else c # b # a # s)"

definition trim :: "string \<Rightarrow> string" where
  "trim s = rev (trimEndRev (rev (trimStart s)))"

text \<open>\<^verbatim>\<open>split(' ')\<close> and \<^verbatim>\<open>join(' ')\<close>.\<close>

fun split_on :: "char \<Rightarrow> string \<Rightarrow> string list" where
  "split_on c [] = [[]]"
| "split_on c (x # xs) =
     (if x = c then [] # split_on c xs
      else (case split_on c xs of [] \<Rightarrow> [[x]] | w # ws \<Rightarrow> (x # w) # ws))"

fun join_with :: "string \<Rightarrow> string list \<Rightarrow> string" where
  "join_with sep [] = []"
| "join_with sep [w] = w"
| "join_with sep (w # ws) = w @ sep @ join_with sep ws"

definition startsWith :: "string \<Rightarrow> char \<Rightarrow> bool" where
  "startsWith s c = (case s of [] \<Rightarrow> False | x # xs \<Rightarrow> x = c)"

section \<open>Messages\<close>

datatype role = User | Assistant | System

record message =
  msg_role :: role
  msg_text :: string

definition thinking_text :: string where
  "thinking_text = ''__thinking__''"

text \<open>The object \<^verbatim>\<open>{ role: 'assistant', text: '__thinking__' }\<close> of
  \<^verbatim>\<open>appendThinking\<close>.\<close>

definition placeholder :: message where
  "placeholder = \<lparr>msg_role = Assistant, msg_text = thinking_text\<rparr>"

section \<open>The chat window of the crawler front-end (ChatWindow.jsx, App.jsx)\<close>

text \<open>One chat of \<^verbatim>\<open>App.jsx\<close>: \<^verbatim>\<open>{ id: null, title: 'New chat', messages: [] }\<close>.
  The id is whatever the backend sent as \<^verbatim>\<open>chat_id\<close>; \<open>None\<close> is
  \<^verbatim>\<open>undefined\<close>.\<close>

record chat =
  c_id :: "json option"
  c_title :: string
  c_messages :: "message list"

definition newChat :: chat where
  "newChat = \<lparr>c_id = Some JNull, c_title = ''New chat'', c_messages = []\<rparr>"

text \<open>A patch names the fields it overwrites; \<^verbatim>\<open>updateChat\<close> of \<^verbatim>\<open>App.jsx\<close>
  merges it into the chat: \<^verbatim>\<open>{ ...c, ...patch }\<close>.\<close>

record patch =
  p_id :: "json option option"
  p_title :: "string option"
  p_messages :: "message list option"

definition updateChat :: "chat \<Rightarrow> patch \<Rightarrow> chat" where
  "updateChat c p =
     \<lparr>c_id = (case p_id p of None \<Rightarrow> c_id c | Some v \<Rightarrow> v),
      c_title = (case p_title p of None \<Rightarrow> c_title c | Some t \<Rightarrow> t),
      c_messages = (case p_messages p of None \<Rightarrow> c_messages c | Some ms \<Rightarrow> ms)\<rparr>"

text \<open>\<^verbatim>\<open>updateChat({ messages: msgs })\<close>.\<close>

definition setMessages :: "chat \<Rightarrow> message list \<Rightarrow> chat" where
  "setMessages store msgs =
     updateChat store \<lparr>p_id = None, p_title = None, p_messages = Some msgs\<rparr>"

text \<open>
  \<^verbatim>\<open>chat\<close> is a prop of the component: inside one call of \<^verbatim>\<open>send\<close> it is the chat
  as it was when the call started, also after the updates the call itself has made.
  \<^verbatim>\<open>appendThinking\<close> and \<^verbatim>\<open>removeThinking\<close> read that snapshot (first argument)
  and write the stored chat (second argument).
\<close>

definition appendThinking :: "chat \<Rightarrow> chat \<Rightarrow> chat" where
  "appendThinking chat store = setMessages store (c_messages chat @ [placeholder])"

definition removeThinking :: "chat \<Rightarrow> chat \<Rightarrow> chat" where
  "removeThinking chat store =
     setMessages store (filter (\<lambda>m. msg_text m \<noteq> thinking_text) (c_messages chat))"

text \<open>The body of a \<^verbatim>\<open>/start\<close> or \<^verbatim>\<open>/chat/:id/reply\<close> response, read field by
  field.\<close>

record data =
  d_ok :: bool
  d_chat_id :: "json option"
  d_title :: "string option"
  d_messages :: "message list option"
  d_bot :: "string option"
  d_bot_text :: "string option"
  d_columns :: "json option"
  d_rows :: "json option"
  d_error :: "string option"

datatype request = StartReq string | ReplyReq json string

text \<open>\<^verbatim>\<open>const optimisticMessages = [...(chat.messages || []), userMsg]\<close>.\<close>

definition optimisticMessages :: "chat \<Rightarrow> string \<Rightarrow> message list" where
  "optimisticMessages chat currentInput =
     c_messages chat @ [\<lparr>msg_role = User, msg_text = currentInput\<rparr>]"

text \<open>The stored chat while the request is in flight: the optimistic update, then
  \<^verbatim>\<open>appendThinking()\<close>.\<close>

definition awaiting :: "chat \<Rightarrow> string \<Rightarrow> chat" where
  "awaiting chat currentInput =
     appendThinking chat (setMessages chat (optimisticMessages chat currentInput))"

text \<open>The extra message both reply branches push when
  \<^verbatim>\<open>data.columns && data.rows\<close>: its text is
  \<^verbatim>\<open>JSON.stringify({ columns, rows })\<close>. \<^verbatim>\<open>JSON.stringify\<close> is the platform's
  and is a parameter here.\<close>

definition tableMessage :: "(json \<Rightarrow> string) \<Rightarrow> data \<Rightarrow> message list" where
  "tableMessage stringify d =
     (case (d_columns d, d_rows d) of
        (Some cols, Some rws) \<Rightarrow>
          if truthy cols \<and> truthy rws
          then [\<lparr>msg_role = Assistant,
                 msg_text = stringify (JObj [(''columns'', cols), (''rows'', rws)])\<rparr>]
          else []
      | _ \<Rightarrow> [])"

definition errorMessage :: "data \<Rightarrow> message" where
  "errorMessage d =
     \<lparr>msg_role = Assistant, msg_text = ''Error: '' @ or_str (d_error d) ''Unknown''\<rparr>"

text \<open>The \<^verbatim>\<open>!chat.id\<close> branch after \<^verbatim>\<open>removeThinking()\<close>.\<close>

definition onStart :: "chat \<Rightarrow> string \<Rightarrow> data \<Rightarrow> chat \<Rightarrow> chat" where
  "onStart chat currentInput d store =
     (if d_ok d then
        (let store1 = updateChat store
               \<lparr>p_id = Some (d_chat_id d),
                p_title = Some (or_str (d_title d)
                            (join_with '' '' (take 3 (split_on CHR '' '' currentInput)))),
                p_messages = Some (case d_messages d of
                                     Some ms \<Rightarrow> ms
                                   | None \<Rightarrow> optimisticMessages chat currentInput)\<rparr>
         in if d_messages d = None \<and> truthy_str (d_bot d)
            then setMessages store1
                   (optimisticMessages chat currentInput
                      @ [\<lparr>msg_role = Assistant, msg_text = or_str (d_bot d) []\<rparr>])
            else store1)
      else setMessages store (optimisticMessages chat currentInput @ [errorMessage d]))"

text \<open>The reply branch after \<^verbatim>\<open>removeThinking()\<close>.\<close>

definition onReply :: "(json \<Rightarrow> string) \<Rightarrow> chat \<Rightarrow> string \<Rightarrow> data \<Rightarrow> chat \<Rightarrow> chat" where
  "onReply stringify chat currentInput d store =
     (if d_ok d then
        (case d_messages d of
           Some ms \<Rightarrow> setMessages store (ms @ tableMessage stringify d)
         | None \<Rightarrow>
             setMessages store
               (optimisticMessages chat currentInput
                  @ (if truthy_str (d_bot_text d)
                     then [\<lparr>msg_role = Assistant, msg_text = or_str (d_bot_text d) []\<rparr>]
                     else [])
                  @ tableMessage stringify d))
      else setMessages store (optimisticMessages chat currentInput @ [errorMessage d]))"

text \<open>The \<^verbatim>\<open>catch\<close> block; \<open>e\<close> is \<^verbatim>\<open>e.message\<close>.\<close>

definition networkErrorMessage :: "string \<Rightarrow> message" where
  "networkErrorMessage e = \<lparr>msg_role = Assistant, msg_text = ''Network error: '' @ e\<rparr>"

definition onCatch :: "chat \<Rightarrow> string \<Rightarrow> string \<Rightarrow> chat \<Rightarrow> chat" where
  "onCatch chat currentInput e store =
     setMessages (removeThinking chat store)
       (optimisticMessages chat currentInput @ [networkErrorMessage e])"

text \<open>
  \<^verbatim>\<open>send\<close>, one turn. The turn makes one request; its outcome is the last argument:
  \<open>Inl e\<close> when \<^verbatim>\<open>fetch\<close> or \<^verbatim>\<open>resp.json()\<close> throws an error with message \<open>e\<close>,
  \<open>Inr d\<close> when the body \<open>d\<close> arrives. The result is the stored chat at the end of the
  turn and the requests made. The \<^verbatim>\<open>loading\<close> flag, which only disables the
  composer while a turn runs, is left out.
\<close>

definition send ::
  "(json \<Rightarrow> string) \<Rightarrow> chat \<Rightarrow> string \<Rightarrow> string + data \<Rightarrow> chat \<times> request list" where
  "send stringify chat input outcome =
     (if trim input = [] then (chat, [])
      else
        (let store = awaiting chat input in
         if \<not> truthy_opt (c_id chat) then
           (case outcome of
              Inl e \<Rightarrow> (onCatch chat input e store, [StartReq input])
            | Inr d \<Rightarrow> (onStart chat input d (removeThinking chat store), [StartReq input]))
         else
           (case outcome of
              Inl e \<Rightarrow>
                (onCatch chat input e store,
                 (case c_id chat of Some i \<Rightarrow> [ReplyReq i input] | None \<Rightarrow> []))
            | Inr d \<Rightarrow>
                (onReply stringify chat input d (removeThinking chat store),
                 (case c_id chat of Some i \<Rightarrow> [ReplyReq i input] | None \<Rightarrow> [])))))"






text \<open>The message list of the backend that a turn commits as it is: the response
  arrived, is \<^verbatim>\<open>ok\<close> and carries \<^verbatim>\<open>messages\<close>.\<close>

definition backend_history :: "string + data \<Rightarrow> message list option" where
  "backend_history outcome =
     (case outcome of Inl e \<Rightarrow> None | Inr d \<Rightarrow> if d_ok d then d_messages d else None)"

text \<open>
  Messages are compared by value, so a message of the backend that has the placeholder's
  role and text cannot be told from the placeholder. This predicate says that the
  response brings no such message: not in its history, not as its bot text, not as its
  table text.
\<close>

definition outcome_without_placeholder :: "(json \<Rightarrow> string) \<Rightarrow> string + data \<Rightarrow> bool" where
  "outcome_without_placeholder stringify outcome =
     (case outcome of
        Inl e \<Rightarrow> True
      | Inr d \<Rightarrow> placeholder \<notin> set (or_empty (d_messages d))
                 \<and> d_bot d \<noteq> Some thinking_text
                 \<and> d_bot_text d \<noteq> Some thinking_text
                 \<and> placeholder \<notin> set (tableMessage stringify d))"

section \<open>Rendering one message (ChatMessage.jsx)\<close>

text \<open>
  The variable \<^verbatim>\<open>parsed\<close> of \<^verbatim>\<open>ChatMessage\<close>. \<^verbatim>\<open>JSON.parse\<close> is the platform's
  and is a parameter: \<open>None\<close> when it throws. Reading \<^verbatim>\<open>parsed.columns\<close> of null
  throws as well; the \<^verbatim>\<open>catch\<close> block sets \<^verbatim>\<open>parsed = null\<close> in both cases.
\<close>

definition parsed :: "(string \<Rightarrow> json option) \<Rightarrow> role \<Rightarrow> string \<Rightarrow> json option" where
  "parsed parse r t =
     (if r = Assistant \<and> t \<noteq> [] then
        (let trimmed = trim t in
         if startsWith trimmed CHR ''{'' \<or> startsWith trimmed CHR ''['' then
           (case parse trimmed of
              None \<Rightarrow> None
            | Some JNull \<Rightarrow> None
            | Some v \<Rightarrow>
                if \<not> truthy_opt (getProp v ''columns'') \<or> \<not> truthy_opt (getProp v ''rows'')
                then None else Some v)
         else None)
      else None)"

text \<open>What the bubble shows: the three dots, \<^verbatim>\<open>TableView\<close> with
  \<^verbatim>\<open>parsed.columns\<close> and \<^verbatim>\<open>parsed.rows\<close>, or the text.\<close>

datatype bubble = Thinking | TableView "json option" "json option" | TextContent string

definition ChatMessage :: "(string \<Rightarrow> json option) \<Rightarrow> role \<Rightarrow> string \<Rightarrow> bubble" where
  "ChatMessage parse r t =
     (if t = thinking_text then Thinking
      else (case parsed parse r t of
              Some v \<Rightarrow> TableView (getProp v ''columns'') (getProp v ''rows'')
            | None \<Rightarrow> TextContent t))"

text \<open>The shape of a table payload that \<^verbatim>\<open>TableView\<close> reads: \<^verbatim>\<open>columns\<close> an
  array of strings, \<^verbatim>\<open>rows\<close> an array of objects; either may be empty.\<close>

fun string_array :: "json \<Rightarrow> bool" where
  "string_array (JArr xs) = list_all (\<lambda>x. case x of JStr s \<Rightarrow> True | _ \<Rightarrow> False) xs"
| "string_array v = False"

fun object_array :: "json \<Rightarrow> bool" where
  "object_array (JArr xs) = list_all (\<lambda>x. case x of JObj kvs \<Rightarrow> True | _ \<Rightarrow> False) xs"
| "object_array v = False"

section \<open>The ranking front-end (App, unnamed/part_001)\<close>

datatype stage = Idle | Searching | Extracting | Done

record CrawlState =
  knowledge_index :: "json option"
  allowed_metrics :: "string list"
  blocked_metrics :: "string list"
  dataset_preview :: "json list"
  low_trust_present :: "bool option"

text \<open>The body of a \<^verbatim>\<open>/crawl\<close> response (\<^verbatim>\<open>crawlRes\<close>); any field may be
  absent.\<close>

record crawlRes =
  res_knowledge_index :: "json option"
  res_allowed_metrics :: "string list option"
  res_blocked_metrics :: "string list option"
  res_dataset_preview :: "json list option"
  res_low_trust_present :: "bool option"

text \<open>The body of a \<^verbatim>\<open>/chat/web\<close> response (\<^verbatim>\<open>chatRes\<close>).\<close>

record chatRes =
  mode :: string
  response :: string

record ClarificationRequest =
  cl_message :: string
  cl_options :: "string list"

record app =
  messages :: "message list"
  input :: string
  crawlStage :: stage
  crawlState :: "CrawlState option"
  clarification :: "ClarificationRequest option"

definition initialApp :: app where
  "initialApp =
     \<lparr>messages = [], input = [], crawlStage = Idle, crawlState = None, clarification = None\<rparr>"

text \<open>A request the front-end makes: \<^verbatim>\<open>/crawl\<close> with the query, \<^verbatim>\<open>/chat/web\<close> with
  \<^verbatim>\<open>{ user_query: query, ...state }\<close>.\<close>

datatype call = CrawlCall string | ChatWebCall string CrawlState

text \<open>The character U+2026 that ends the status texts.\<close>

definition ellipsis :: string where
  "ellipsis = [CHR 0xE2, CHR 0x80, CHR 0xA6]"

text \<open>
  \<^verbatim>\<open>handleSend(query)\<close>. The outcomes of the two requests are arguments: \<open>Inl e\<close> when
  the awaited promise rejects. The function has no \<^verbatim>\<open>try\<close>: a rejection ends it
  where it stands, and the third component of the result is then the error it rejects
  with (\<open>None\<close> when it returns). \<^verbatim>\<open>setCrawlStage("extracting")\<close> is overwritten by
  \<^verbatim>\<open>setCrawlStage("done")\<close> before anything is awaited.
\<close>

definition handleSend ::
  "app \<Rightarrow> string \<Rightarrow> string + crawlRes \<Rightarrow> string + chatRes \<Rightarrow> app \<times> call list \<times> string option" where
  "handleSend st query crawl chat =
     (let st1 = st\<lparr>messages := messages st @ [\<lparr>msg_role = User, msg_text = query\<rparr>],
                   clarification := None,
                   crawlStage := Searching\<rparr>
      in case crawl of
           Inl e \<Rightarrow> (st1, [CrawlCall query], Some e)
         | Inr cr \<Rightarrow>
             (let state = \<lparr>knowledge_index = res_knowledge_index cr,
                           allowed_metrics = or_empty (res_allowed_metrics cr),
                           blocked_metrics = or_empty (res_blocked_metrics cr),
                           dataset_preview = or_empty (res_dataset_preview cr),
                           low_trust_present = res_low_trust_present cr\<rparr>;
                  st2 = st1\<lparr>crawlState := Some state,
                            crawlStage := Done,
                            messages := messages st1 @
                              [\<lparr>msg_role = System,
                                msg_text = ''Web data extracted. Evaluating whether I can answer''
                                            @ ellipsis\<rparr>]\<rparr>;
                  calls = [CrawlCall query, ChatWebCall query state]
              in case chat of
                   Inl e \<Rightarrow> (st2, calls, Some e)
                 | Inr ch \<Rightarrow>
                     if mode ch = ''CLARIFICATION_ONLY''
                     then (st2\<lparr>clarification :=
                                 Some \<lparr>cl_message = response ch,
                                       cl_options = allowed_metrics state\<rparr>\<rparr>,
                           calls, None)
                     else (st2\<lparr>messages := messages st2 @
                                 [\<lparr>msg_role = Assistant, msg_text = response ch\<rparr>]\<rparr>,
                           calls, None)))"

text \<open>\<^verbatim>\<open>const newQuery = `${input} by ${metric}`; handleSend(newQuery)\<close>, where
  \<^verbatim>\<open>input\<close> is the text of the input box.\<close>

definition handleClarificationSelect ::
  "app \<Rightarrow> string \<Rightarrow> string + crawlRes \<Rightarrow> string + chatRes \<Rightarrow> app \<times> call list \<times> string option" where
  "handleClarificationSelect st metric crawl chat =
     handleSend st (input st @ '' by '' @ metric) crawl chat"

text \<open>The Send button and the Enter key:
  \<^verbatim>\<open>if (input.trim()) { handleSend(input); setInput("") }\<close>.\<close>

definition submit ::
  "app \<Rightarrow> string + crawlRes \<Rightarrow> string + chatRes \<Rightarrow> app \<times> call list \<times> string option" where
  "submit st crawl chat =
     (if trim (input st) = [] then (st, [], None)
      else (case handleSend st (input st) crawl chat of
              (st1, calls, err) \<Rightarrow> (st1\<lparr>input := []\<rparr>, calls, err)))"

section \<open>The chat window over the session store (unnamed/part_000, unnamed/part_004)\<close>

text \<open>
  The module-level object \<^verbatim>\<open>session\<close>. Its interface declares the three lists as
  arrays; \<^verbatim>\<open>handleSend\<close> assigns fields of the untyped crawl result to them, so at
  run time a field holds \<^verbatim>\<open>undefined\<close> (\<open>None\<close>) when the result lacks it.
  \<^verbatim>\<open>blockedMetrics\<close> is never assigned.
\<close>

record WebSession =
  knowledgeIndex :: "json option"
  allowedMetrics :: "string list option"
  blockedMetrics :: "string list"
  datasetPreview :: "json list option"
  lowTrust :: "bool option"

definition session :: WebSession where
  "session =
     \<lparr>knowledgeIndex = Some JNull, allowedMetrics = Some [], blockedMetrics = [],
      datasetPreview = Some [], lowTrust = Some False\<rparr>"

record window =
  w_messages :: "message list"
  w_input :: string

text \<open>The argument of \<^verbatim>\<open>chatWeb\<close>.\<close>

record payload =
  pl_user_query :: string
  pl_knowledge_index :: "json option"
  pl_allowed_metrics :: "string list option"
  pl_blocked_metrics :: "string list"
  pl_low_trust_present :: "bool option"
  pl_dataset_preview :: "json list option"

datatype wcall = CrawlW string | ChatWebW payload

text \<open>\<^verbatim>\<open>handleSend()\<close> of this window, on the window's state and the session object.
  It has no \<^verbatim>\<open>try\<close> either.\<close>

definition ChatWindow_handleSend ::
  "window \<times> WebSession \<Rightarrow> string + crawlRes \<Rightarrow> string + chatRes
     \<Rightarrow> (window \<times> WebSession) \<times> wcall list \<times> string option" where
  "ChatWindow_handleSend ws crawl chat =
     (case ws of (w, s) \<Rightarrow>
        (let w1 = w\<lparr>w_messages := w_messages w @ [\<lparr>msg_role = User, msg_text = w_input w\<rparr>]\<rparr>
         in case crawl of
              Inl e \<Rightarrow> ((w1, s), [CrawlW (w_input w)], Some e)
            | Inr crawlResult \<Rightarrow>
                (let w2 = w1\<lparr>w_messages := w_messages w1 @
                               [\<lparr>msg_role = System,
                                 msg_text = ''Searching the web'' @ ellipsis\<rparr>]\<rparr>;
                     s1 = s\<lparr>knowledgeIndex := res_knowledge_index crawlResult,
                            allowedMetrics := res_allowed_metrics crawlResult,
                            datasetPreview := res_dataset_preview crawlResult,
                            lowTrust := res_low_trust_present crawlResult\<rparr>;
                     calls = [CrawlW (w_input w),
                              ChatWebW \<lparr>pl_user_query = w_input w,
                                        pl_knowledge_index = knowledgeIndex s1,
                                        pl_allowed_metrics = allowedMetrics s1,
                                        pl_blocked_metrics = [],
                                        pl_low_trust_present = lowTrust s1,
                                        pl_dataset_preview = datasetPreview s1\<rparr>]
                 in case chat of
                      Inl e \<Rightarrow> ((w2, s1), calls, Some e)
                    | Inr chatResult \<Rightarrow>
                        ((w2\<lparr>w_messages := w_messages w2 @
                               [\<lparr>msg_role = Assistant, msg_text = response chatResult\<rparr>]\<rparr>,
                          s1), calls, None))))"

section \<open>Sample platform functions and sample data\<close>

text \<open>
  The examples below need \<^verbatim>\<open>JSON.stringify\<close> and \<^verbatim>\<open>JSON.parse\<close> at a few
  arguments only. These two functions give the platform's result at those arguments.
\<close>

definition stringify_example :: "json \<Rightarrow> string" where
  \<open>stringify_example v =
     (if v = JObj [(''columns'', JArr [JStr ''name'']), (''rows'', JArr [])]
      then ''{"columns":["name"],"rows":[]}'' else ''null'')\<close>

definition parse_example :: "string \<Rightarrow> json option" where
  \<open>parse_example s =
     (if s = ''{"columns":[],"rows":[]}''
      then Some (JObj [(''columns'', JArr []), (''rows'', JArr [])])
      else if s = ''{"columns":["name"],"rows":[]}''
      then Some (JObj [(''columns'', JArr [JStr ''name'']), (''rows'', JArr [])])
      else None)\<close>

definition chat_c1 :: chat where
  "chat_c1 =
     \<lparr>c_id = Some (JStr ''c1''), c_title = ''Top incubators'',
      c_messages = [\<lparr>msg_role = User, msg_text = ''Top incubators''\<rparr>,
                    \<lparr>msg_role = Assistant, msg_text = ''Here they are''\<rparr>]\<rparr>"

definition no_data :: data where
  "no_data =
     \<lparr>d_ok = True, d_chat_id = None, d_title = None, d_messages = None, d_bot = None,
      d_bot_text = None, d_columns = None, d_rows = None, d_error = None\<rparr>"

definition history :: "message list" where
  "history =
     [\<lparr>msg_role = User, msg_text = ''in India''\<rparr>,
      \<lparr>msg_role = Assistant, msg_text = ''Ranked by funding''\<rparr>]"

definition reply_with_table :: data where
  "reply_with_table =
     no_data\<lparr>d_messages := Some history,
             d_columns := Some (JArr [JStr ''name'']),
             d_rows := Some (JArr [])\<rparr>"

definition crawl_country_sector :: crawlRes where
  "crawl_country_sector =
     \<lparr>res_knowledge_index = Some (JStr ''idx''),
      res_allowed_metrics = Some [''country'', ''sector''],
      res_blocked_metrics = Some [''salary''],
      res_dataset_preview = None,
      res_low_trust_present = Some False\<rparr>"

definition crawl_without_metrics :: crawlRes where
  "crawl_without_metrics =
     \<lparr>res_knowledge_index = Some (JStr ''idx''),
      res_allowed_metrics = None,
      res_blocked_metrics = None,
      res_dataset_preview = None,
      res_low_trust_present = Some False\<rparr>"

definition clarify :: chatRes where
  "clarify = \<lparr>mode = ''CLARIFICATION_ONLY'', response = ''Rank by which metric? (a) revenue''\<rparr>"

definition greeting :: data where
  "greeting = no_data\<lparr>d_chat_id := Some (JStr ''c1''), d_bot := Some ''Hello''\<rparr>"




text \<open>A table payload with a no-break space in front and two spaces behind.\<close>

definition nbsp_payload :: string where
  \<open>nbsp_payload = [CHR 0xC2, CHR 0xA0] @ ''{"columns":["name"],"rows":[]}'' @ ''  ''\<close>

text \<open>The ranking front-end after the user has typed \<^verbatim>\<open>revenue ranking\<close>, pressed
  Send, and the backend has asked for a clarification.\<close>

definition after_clarify :: app where
  "after_clarify =
     fst (submit (initialApp\<lparr>input := ''revenue ranking''\<rparr>)
            (Inr crawl_country_sector) (Inr clarify))"

section \<open>Basic facts\<close>

lemma c_messages_setMessages [simp]: "c_messages (setMessages store ms) = ms"
  by (simp add: setMessages_def updateChat_def)

lemma c_id_setMessages [simp]: "c_id (setMessages store ms) = c_id store"
  by (simp add: setMessages_def updateChat_def)

lemma user_not_placeholder [simp]:
  "\<lparr>msg_role = User, msg_text = t\<rparr> \<noteq> placeholder"
  "placeholder \<noteq> \<lparr>msg_role = User, msg_text = t\<rparr>"
  by (simp_all add: placeholder_def)

lemma error_not_placeholder [simp]:
  "errorMessage d \<noteq> placeholder" "placeholder \<noteq> errorMessage d"
  by (simp_all add: placeholder_def errorMessage_def thinking_text_def)

lemma network_error_not_placeholder [simp]:
  "networkErrorMessage e \<noteq> placeholder" "placeholder \<noteq> networkErrorMessage e"
  by (simp_all add: placeholder_def networkErrorMessage_def thinking_text_def)

lemma placeholder_optimistic:
  "placeholder \<in> set (optimisticMessages chat inp) \<longleftrightarrow> placeholder \<in> set (c_messages chat)"
  by (auto simp: optimisticMessages_def)

lemma bot_message_placeholder:
  "\<lparr>msg_role = Assistant, msg_text = or_str v []\<rparr> = placeholder \<longleftrightarrow> v = Some thinking_text"
  "placeholder = \<lparr>msg_role = Assistant, msg_text = or_str v []\<rparr> \<longleftrightarrow> v = Some thinking_text"
  by (auto simp: placeholder_def or_str_def thinking_text_def split: option.splits)

lemma trim_thinking: "trim thinking_text = thinking_text"
  by (simp add: trim_def thinking_text_def js_space_def js_space2_def js_space3_def)

section \<open>Reconciliation with the backend's history\<close>

text \<open>
  Claim C1, as stated: after a successful reply whose response carries \<^verbatim>\<open>messages\<close>,
  the chat's message list is that array exactly, also when the response carries
  \<^verbatim>\<open>columns\<close> and \<^verbatim>\<open>rows\<close>. The code appends the table message to the
  backend's history whenever both are truthy (lines 88 to 94 of \<^verbatim>\<open>send\<close>): here the
  response is ok, its history has two messages, and the committed list differs from it.
\<close>

theorem reply_history_counterexample:
  "d_ok reply_with_table \<and> d_messages reply_with_table = Some history
   \<and> c_messages (fst (send stringify_example chat_c1 ''in India'' (Inr reply_with_table)))
       \<noteq> history"
  by (simp add: send_def onReply_def Let_def trim_def js_space_def js_space2_def js_space3_def
      chat_c1_def truthy_opt_def reply_with_table_def no_data_def tableMessage_def)

text \<open>
  Claim C1, amended: after a successful reply whose response carries \<^verbatim>\<open>messages\<close>,
  the chat's message list is that array, followed by one assistant message with the
  serialised table when \<^verbatim>\<open>columns\<close> and \<^verbatim>\<open>rows\<close> are both truthy, and by nothing
  otherwise. The optimistic list plays no part.
\<close>

theorem send_reply_history:
  assumes "truthy_opt (c_id chat)" and "trim inp \<noteq> []" and "d_ok d"
      and "d_messages d = Some ms"
  shows "c_messages (fst (send stringify chat inp (Inr d))) = ms @ tableMessage stringify d"
  using assms by (simp add: send_def onReply_def Let_def)

theorem send_reply_history_witness:
  "truthy_opt (c_id chat_c1) \<and> trim ''in India'' \<noteq> [] \<and> d_ok reply_with_table
   \<and> d_messages reply_with_table = Some history
   \<and> c_messages (fst (send stringify_example chat_c1 ''in India'' (Inr reply_with_table)))
       = history @ [\<lparr>msg_role = Assistant,
                     msg_text = stringify_example
                       (JObj [(''columns'', JArr [JStr ''name'']), (''rows'', JArr [])])\<rparr>]"
proof -
  have a: "truthy_opt (c_id chat_c1)" by (simp add: chat_c1_def truthy_opt_def)
  have b: "trim ''in India'' \<noteq> []" 
    by (simp add: trim_def js_space_def js_space2_def js_space3_def)
  have c: "d_ok reply_with_table" by (simp add: reply_with_table_def no_data_def)
  have d: "d_messages reply_with_table = Some history" by (simp add: reply_with_table_def)
  have t: "tableMessage stringify_example reply_with_table =
     [\<lparr>msg_role = Assistant,
       msg_text = stringify_example
         (JObj [(''columns'', JArr [JStr ''name'']), (''rows'', JArr [])])\<rparr>]"
    by (simp add: tableMessage_def reply_with_table_def)
  show ?thesis
    using a b c d t send_reply_history [OF a b c d, of stringify_example] by simp
qed

section \<open>The thinking placeholder\<close>

lemma onCatch_clean:
  "placeholder \<notin> set (c_messages chat) \<Longrightarrow>
   placeholder \<notin> set (c_messages (onCatch chat inp e store))"
  by (simp add: onCatch_def placeholder_optimistic)

lemma onStart_clean:
  assumes "placeholder \<notin> set (c_messages chat)"
      and "outcome_without_placeholder stringify (Inr d)"
  shows "placeholder \<notin> set (c_messages (onStart chat inp d store))"
  using assms
  by (auto simp: onStart_def Let_def updateChat_def placeholder_optimistic
      outcome_without_placeholder_def or_empty_def bot_message_placeholder
      split: option.splits)

lemma onReply_clean:
  assumes "placeholder \<notin> set (c_messages chat)"
      and "outcome_without_placeholder stringify (Inr d)"
  shows "placeholder \<notin> set (c_messages (onReply stringify chat inp d store))"
  using assms
  by (auto simp: onReply_def placeholder_optimistic
      outcome_without_placeholder_def or_empty_def bot_message_placeholder
      split: option.splits)

lemma awaiting_has_placeholder: "placeholder \<in> set (c_messages (awaiting chat inp))"
  by (simp add: awaiting_def appendThinking_def)

text \<open>
  Claim C4: the placeholder that \<^verbatim>\<open>send\<close> appends when the turn starts is in the
  stored list while the request is in flight, and it is not in the list the turn
  commits, whether the request succeeds, is refused (\<^verbatim>\<open>ok\<close> false) or throws. The
  chat is idle when the turn starts (no placeholder in it), and the response does not
  itself deliver a message equal to the placeholder.
\<close>

theorem placeholder_gone:
  assumes "placeholder \<notin> set (c_messages chat)"
      and "outcome_without_placeholder stringify outcome"
  shows "placeholder \<in> set (c_messages (awaiting chat inp))
         \<and> placeholder \<notin> set (c_messages (fst (send stringify chat inp outcome)))"
proof
  show "placeholder \<in> set (c_messages (awaiting chat inp))"
    by (rule awaiting_has_placeholder)
next
  show "placeholder \<notin> set (c_messages (fst (send stringify chat inp outcome)))"
  proof (cases outcome)
    case (Inl e)
    then show ?thesis using assms(1)
      by (simp add: send_def Let_def onCatch_clean)
  next
    case (Inr d)
    then show ?thesis
      using assms onStart_clean [of chat stringify d] onReply_clean [of chat stringify d]
      by (simp add: send_def Let_def)
  qed
qed

theorem placeholder_gone_witness:
  "placeholder \<notin> set (c_messages chat_c1)
   \<and> outcome_without_placeholder stringify_example (Inr reply_with_table)
   \<and> placeholder \<in> set (c_messages (awaiting chat_c1 ''in India''))
   \<and> placeholder \<notin> set (c_messages
         (fst (send stringify_example chat_c1 ''in India'' (Inr reply_with_table))))"
proof -
  have a: "placeholder \<notin> set (c_messages chat_c1)"
    by (simp add: chat_c1_def placeholder_def thinking_text_def)
  have b: "outcome_without_placeholder stringify_example (Inr reply_with_table)"
    by (simp add: outcome_without_placeholder_def reply_with_table_def no_data_def history_def
        or_empty_def placeholder_def tableMessage_def thinking_text_def stringify_example_def)
  show ?thesis using a b placeholder_gone [OF a b, of "''in India''"] by simp
qed

text \<open>
  Claim C10, as stated: a message of the user whose text is \<^verbatim>\<open>__thinking__\<close> is
  removed from the history by the end of the turn. Here a new chat receives that very
  input, the backend answers \<^verbatim>\<open>ok\<close> with a bot text and no history, and the user's
  message is in the committed list.
\<close>

theorem thinking_user_message_counterexample:
  "\<lparr>msg_role = User, msg_text = thinking_text\<rparr>
     \<in> set (c_messages (fst (send stringify_example newChat thinking_text (Inr greeting))))"
  by (simp add: send_def Let_def onStart_def optimisticMessages_def newChat_def greeting_def
      no_data_def truthy_opt_def truthy_str_def updateChat_def thinking_text_def trim_def
      js_space_def js_space2_def js_space3_def)

lemma removeThinking_any_role:
  "\<forall>m \<in> set (c_messages (removeThinking chat store)). msg_text m \<noteq> thinking_text"
  by (simp add: removeThinking_def)

lemma user_message_committed:
  assumes "trim inp \<noteq> []" and "backend_history outcome = None"
  shows "\<lparr>msg_role = User, msg_text = inp\<rparr>
           \<in> set (c_messages (fst (send stringify chat inp outcome)))"
  using assms
  by (auto simp: send_def Let_def backend_history_def onCatch_def onStart_def onReply_def
      optimisticMessages_def updateChat_def split: sum.splits if_splits option.splits)

text \<open>
  Claim C10, amended: \<^verbatim>\<open>removeThinking\<close> leaves no message with the text
  \<^verbatim>\<open>__thinking__\<close> in the list it stores, whatever the role; the turn then commits
  a list of its own, and unless that list is the backend's history it holds the user's
  message, whatever its text.
\<close>

theorem removeThinking_then_commit:
  "(\<forall>m \<in> set (c_messages (removeThinking chat store)). msg_text m \<noteq> thinking_text)
   \<and> (trim inp \<noteq> [] \<and> backend_history outcome = None \<longrightarrow>
        \<lparr>msg_role = User, msg_text = inp\<rparr>
          \<in> set (c_messages (fst (send stringify chat inp outcome))))"
  using removeThinking_any_role user_message_committed by blast

theorem removeThinking_then_commit_witness:
  "c_messages (removeThinking
       (chat_c1\<lparr>c_messages := [\<lparr>msg_role = User, msg_text = thinking_text\<rparr>,
                               \<lparr>msg_role = Assistant, msg_text = ''Hello''\<rparr>,
                               placeholder]\<rparr>) chat_c1)
     = [\<lparr>msg_role = Assistant, msg_text = ''Hello''\<rparr>]
   \<and> trim thinking_text \<noteq> [] \<and> backend_history (Inl ''Failed to fetch'') = None
   \<and> \<lparr>msg_role = User, msg_text = thinking_text\<rparr>
        \<in> set (c_messages (fst (send stringify_example chat_c1 thinking_text
                                   (Inl ''Failed to fetch''))))"
proof -
  have a: "trim thinking_text \<noteq> []" by (simp add: trim_thinking) (simp add: thinking_text_def)
  have b: "backend_history (Inl ''Failed to fetch'') = None" by (simp add: backend_history_def)
  have c: "c_messages (removeThinking
       (chat_c1\<lparr>c_messages := [\<lparr>msg_role = User, msg_text = thinking_text\<rparr>,
                               \<lparr>msg_role = Assistant, msg_text = ''Hello''\<rparr>,
                               placeholder]\<rparr>) chat_c1)
     = [\<lparr>msg_role = Assistant, msg_text = ''Hello''\<rparr>]"
    by (simp add: removeThinking_def placeholder_def thinking_text_def)
  show ?thesis
    using a b c
      removeThinking_then_commit [of chat_c1 chat_c1 thinking_text "Inl ''Failed to fetch''"
        stringify_example]
    by simp
qed

section \<open>The session identifier\<close>












section \<open>Classifying a message as a table\<close>

text \<open>
  Claim C7, as stated: a text is a table exactly when it is valid JSON with non-empty
  \<^verbatim>\<open>columns\<close> and non-empty \<^verbatim>\<open>rows\<close>; empty ones make it plain. The test
  \<^verbatim>\<open>!parsed.columns || !parsed.rows\<close> is a truthiness test, and an empty array is
  truthy: this payload with empty columns and empty rows is shown as a table.
\<close>

theorem empty_table_counterexample:
  \<open>ChatMessage parse_example Assistant ''{"columns":[],"rows":[]}''
     = TableView (Some (JArr [])) (Some (JArr []))\<close>
  by (simp add: ChatMessage_def parsed_def parse_example_def thinking_text_def trim_def
      js_space_def js_space2_def js_space3_def startsWith_def truthy_opt_def)

lemma string_array_truthy: "string_array v \<Longrightarrow> truthy v"
  by (cases v) simp_all

lemma object_array_truthy: "object_array v \<Longrightarrow> truthy v"
  by (cases v) simp_all

lemma starts_not_thinking:
  "startsWith (trim t) CHR ''{'' \<or> startsWith (trim t) CHR ''['' \<Longrightarrow> t \<noteq> thinking_text"
  using trim_thinking by (auto simp: startsWith_def thinking_text_def)

lemma getProp_Some_not_null: "getProp v k = Some x \<Longrightarrow> v \<noteq> JNull"
  by (cases v) simp_all

lemma table_payload_is_table:
  assumes "ro = Assistant" and "t \<noteq> []"
      and "startsWith (trim t) CHR ''{'' \<or> startsWith (trim t) CHR ''[''"
      and "parse (trim t) = Some v"
      and "getProp v ''columns'' = Some cols" and "getProp v ''rows'' = Some rws"
      and "string_array cols" and "object_array rws"
  shows "ChatMessage parse ro t = TableView (Some cols) (Some rws)"
proof -
  have "t \<noteq> thinking_text" using assms(3) by (rule starts_not_thinking)
  moreover have "v \<noteq> JNull" using assms(5) by (rule getProp_Some_not_null)
  moreover have "truthy cols" "truthy rws"
    using assms(7,8) by (simp_all add: string_array_truthy object_array_truthy)
  ultimately show ?thesis using assms(1-6)
    by (auto simp: ChatMessage_def parsed_def Let_def truthy_opt_def split: json.splits)
qed

lemma other_payload_is_plain:
  assumes "ro \<noteq> Assistant \<or> t = []
           \<or> \<not> (startsWith (trim t) CHR ''{'' \<or> startsWith (trim t) CHR ''['')
           \<or> parse (trim t) = None
           \<or> (\<exists>v. parse (trim t) = Some v
                 \<and> (\<not> truthy_opt (getProp v ''columns'') \<or> \<not> truthy_opt (getProp v ''rows'')))"
  shows "ChatMessage parse ro t = (if t = thinking_text then Thinking else TextContent t)"
  using assms
  by (auto simp: ChatMessage_def parsed_def Let_def split: option.splits json.splits)

text \<open>
  Claim C7, amended: an assistant message is classified as a table when its trimmed text
  starts with a brace or a bracket and parses to a value whose \<^verbatim>\<open>columns\<close> is an
  array of strings and whose \<^verbatim>\<open>rows\<close> is an array of objects, empty arrays
  included. A message is classified plain (the thinking dots when its text is the
  sentinel) when it is not from the assistant, is empty, does not start so, does not
  parse, or has \<^verbatim>\<open>columns\<close> or \<^verbatim>\<open>rows\<close> missing or falsy. A payload whose
  \<^verbatim>\<open>columns\<close> or \<^verbatim>\<open>rows\<close> is truthy and of another shape is not part of this
  statement.
\<close>

theorem table_classification:
  "(ro = Assistant \<and> t \<noteq> []
      \<and> (startsWith (trim t) CHR ''{'' \<or> startsWith (trim t) CHR ''['')
      \<and> parse (trim t) = Some v
      \<and> getProp v ''columns'' = Some cols \<and> getProp v ''rows'' = Some rws
      \<and> string_array cols \<and> object_array rws
      \<longrightarrow> ChatMessage parse ro t = TableView (Some cols) (Some rws))
   \<and> (ro \<noteq> Assistant \<or> t = []
       \<or> \<not> (startsWith (trim t) CHR ''{'' \<or> startsWith (trim t) CHR ''['')
       \<or> parse (trim t) = None
       \<or> (\<exists>w. parse (trim t) = Some w
             \<and> (\<not> truthy_opt (getProp w ''columns'') \<or> \<not> truthy_opt (getProp w ''rows'')))
      \<longrightarrow> ChatMessage parse ro t = (if t = thinking_text then Thinking else TextContent t))"
  using table_payload_is_table [of ro t parse v cols rws] other_payload_is_plain [of ro t parse]
  by blast

theorem table_classification_witness:
  \<open>trim nbsp_payload = ''{"columns":["name"],"rows":[]}''
   \<and> string_array (JArr [JStr ''name'']) \<and> object_array (JArr [])
   \<and> ChatMessage parse_example Assistant nbsp_payload
       = TableView (Some (JArr [JStr ''name''])) (Some (JArr []))
   \<and> parse_example (trim ''{"columns":[1'') = None
   \<and> ChatMessage parse_example Assistant ''{"columns":[1'' = TextContent ''{"columns":[1''\<close>
proof -
  have a: \<open>trim nbsp_payload = ''{"columns":["name"],"rows":[]}''\<close>
    by (simp add: nbsp_payload_def trim_def js_space_def js_space2_def js_space3_def)
  have b: \<open>parse_example ''{"columns":["name"],"rows":[]}''
             = Some (JObj [(''columns'', JArr [JStr ''name'']), (''rows'', JArr [])])\<close>
    by (simp add: parse_example_def)
  have c: \<open>parse_example (trim ''{"columns":[1'') = None\<close>
    by (simp add: parse_example_def trim_def js_space_def js_space2_def js_space3_def)
  have d: \<open>''{"columns":[1'' \<noteq> thinking_text\<close> by (simp add: thinking_text_def)
  have e: "nbsp_payload \<noteq> []" by (simp add: nbsp_payload_def)
  show ?thesis
    using a b c d e
      table_classification
        [of Assistant nbsp_payload parse_example
            "JObj [(''columns'', JArr [JStr ''name'']), (''rows'', JArr [])]"
            "JArr [JStr ''name'']" "JArr []"]
      table_classification [of _ \<open>''{"columns":[1''\<close> parse_example]
    by (simp add: startsWith_def)
qed

section \<open>The ranking front-end: clarification\<close>

text \<open>
  Claim C2: when the chat response of a turn has mode \<^verbatim>\<open>CLARIFICATION_ONLY\<close>, the
  clarification installed has the response text as its message and, as its options, the
  allowed metrics of the crawl state installed in that same turn, which are the
  \<^verbatim>\<open>allowed_metrics\<close> of the turn's crawl response (empty when absent). The response
  text has no part in the options.
\<close>

theorem clarification_options_from_crawl:
  assumes "mode ch = ''CLARIFICATION_ONLY''"
  shows "map_option allowed_metrics (crawlState (fst (handleSend st q (Inr cr) (Inr ch))))
           = Some (or_empty (res_allowed_metrics cr))
         \<and> clarification (fst (handleSend st q (Inr cr) (Inr ch)))
             = Some \<lparr>cl_message = response ch,
                     cl_options = or_empty (res_allowed_metrics cr)\<rparr>"
  using assms by (simp add: handleSend_def Let_def)

theorem clarification_options_from_crawl_witness:
  "mode clarify = ''CLARIFICATION_ONLY''
   \<and> res_allowed_metrics crawl_country_sector = Some [''country'', ''sector'']
   \<and> clarification (fst (handleSend initialApp ''revenue ranking''
                            (Inr crawl_country_sector) (Inr clarify)))
       = Some \<lparr>cl_message = response clarify, cl_options = [''country'', ''sector'']\<rparr>"
proof -
  have m: "mode clarify = ''CLARIFICATION_ONLY''" by (simp add: clarify_def)
  have r: "res_allowed_metrics crawl_country_sector = Some [''country'', ''sector'']"
    by (simp add: crawl_country_sector_def)
  show ?thesis
    using m r clarification_options_from_crawl
                [OF m, of initialApp "''revenue ranking''" crawl_country_sector]
    by (simp add: or_empty_def)
qed

text \<open>The query of the turn that a clarification choice starts is built from the text
  in the input box at that moment, and sending a query empties the input box.\<close>

lemma handleClarificationSelect_query:
  "take 1 (fst (snd (handleClarificationSelect st metric crawl chat)))
     = [CrawlCall (input st @ '' by '' @ metric)]"
  by (simp add: handleClarificationSelect_def handleSend_def Let_def split: sum.splits)

lemma submit_clears_input:
  "trim (input st) \<noteq> [] \<Longrightarrow> input (fst (submit st crawl chat)) = []"
  by (simp add: submit_def handleSend_def Let_def split: sum.splits prod.splits)

text \<open>
  Claim C3, evaluated on the code. The user types \<^verbatim>\<open>revenue ranking\<close> and presses
  Send; the backend asks for a clarification with the options country and sector. The
  Send handler has emptied the input box by then, and \<^verbatim>\<open>handleClarificationSelect\<close>
  builds the new query from the input box: choosing country starts a turn whose query is
  \<^verbatim>\<open> by country\<close>, not \<^verbatim>\<open>revenue ranking by country\<close>. The pending clarification
  is cleared when the new turn starts, also when its crawl then fails.
\<close>

theorem clarification_select_query:
  "clarification after_clarify
     = Some \<lparr>cl_message = response clarify, cl_options = [''country'', ''sector'']\<rparr>
   \<and> input after_clarify = []
   \<and> take 1 (fst (snd (handleClarificationSelect after_clarify ''country'' crawl chat)))
       = [CrawlCall '' by country'']
   \<and> '' by country'' \<noteq> ''revenue ranking by country''
   \<and> clarification (fst (handleClarificationSelect after_clarify ''country'' (Inl e) chat))
       = None"
  by (simp add: after_clarify_def submit_def handleSend_def handleClarificationSelect_def
      Let_def initialApp_def trim_def js_space_def js_space2_def js_space3_def clarify_def crawl_country_sector_def
      or_empty_def split: sum.splits)

section \<open>The ranking front-end: a failed crawl\<close>

text \<open>The chat window of the crawler front-end catches a failed request: the turn commits
  the optimistic list and one error message after it.\<close>

lemma send_failure_one_error_message:
  "trim inp \<noteq> [] \<Longrightarrow>
   c_messages (fst (send stringify c inp (Inl e)))
     = optimisticMessages c inp @ [networkErrorMessage e]
   \<and> length (snd (send stringify c inp (Inl e))) \<le> 1"
  by (simp add: send_def Let_def onCatch_def split: option.splits)

text \<open>
  Claim C6, evaluated on the code. When the crawl request fails, \<^verbatim>\<open>handleSend\<close> has
  made the crawl request and no other, and it stops there with the error: the message
  list has gained the user's message and nothing else, no error message, and the crawl
  stage stays at searching. The chat window of the crawler front-end does catch a failed
  request and appends one error message to the optimistic list
  (\<open>send_failure_one_error_message\<close>).
\<close>

theorem crawl_failure_no_error_message:
  "handleSend st q (Inl e) chat =
     (st\<lparr>messages := messages st @ [\<lparr>msg_role = User, msg_text = q\<rparr>],
         clarification := None, crawlStage := Searching\<rparr>,
      [CrawlCall q], Some e)"
  by (simp add: handleSend_def)

section \<open>Crawl artifacts\<close>

text \<open>\<^verbatim>\<open>handleSend\<close> of the ranking front-end installs a crawl state made of the
  response alone, with empty lists for the absent ones, and goes on to the chat
  request.\<close>

lemma handleSend_installs_fresh_state:
  "crawlState (fst (handleSend st q (Inr cr) chat)) =
     Some \<lparr>knowledge_index = res_knowledge_index cr,
           allowed_metrics = or_empty (res_allowed_metrics cr),
           blocked_metrics = or_empty (res_blocked_metrics cr),
           dataset_preview = or_empty (res_dataset_preview cr),
           low_trust_present = res_low_trust_present cr\<rparr>"
  by (simp add: handleSend_def Let_def split: sum.splits)

lemma handleSend_chat_call_issued:
  "fst (snd (handleSend st q (Inr cr) chat)) =
     [CrawlCall q,
      ChatWebCall q
        \<lparr>knowledge_index = res_knowledge_index cr,
         allowed_metrics = or_empty (res_allowed_metrics cr),
         blocked_metrics = or_empty (res_blocked_metrics cr),
         dataset_preview = or_empty (res_dataset_preview cr),
         low_trust_present = res_low_trust_present cr\<rparr>]"
  by (simp add: handleSend_def Let_def split: sum.splits)

text \<open>
  Claim C8, evaluated on the code. The crawl response has no \<^verbatim>\<open>allowed_metrics\<close>
  and no \<^verbatim>\<open>dataset_preview\<close>. The chat window over the session store assigns the
  absent fields as they are: the session then holds \<^verbatim>\<open>undefined\<close>, not an empty
  list. The ranking front-end, on the same response, installs the empty list.
\<close>

theorem session_metrics_not_defaulted:
  "res_allowed_metrics crawl_without_metrics = None
   \<and> allowedMetrics
        (snd (fst (ChatWindow_handleSend (w, session) (Inr crawl_without_metrics) chat)))
       = None
   \<and> datasetPreview
        (snd (fst (ChatWindow_handleSend (w, session) (Inr crawl_without_metrics) chat)))
       = None
   \<and> map_option allowed_metrics
        (crawlState (fst (handleSend st q (Inr crawl_without_metrics) chat'))) = Some []"
  by (simp add: ChatWindow_handleSend_def handleSend_def crawl_without_metrics_def Let_def
      or_empty_def split: sum.splits)

text \<open>
  Claim C9, evaluated on the code. The crawl response blocks the metric salary. The chat
  window over the session store never assigns \<^verbatim>\<open>session.blockedMetrics\<close>: after the
  crawl the field is what it was before. The ranking front-end, on the same response,
  installs the blocked metric.
\<close>

theorem session_blocked_metrics_retained:
  "res_blocked_metrics crawl_country_sector = Some [''salary'']
   \<and> blockedMetrics
        (snd (fst (ChatWindow_handleSend (w, s) (Inr crawl_country_sector) chat)))
       = blockedMetrics s
   \<and> map_option blocked_metrics
        (crawlState (fst (handleSend st q (Inr crawl_country_sector) chat')))
       = Some [''salary'']"
  by (simp add: ChatWindow_handleSend_def handleSend_def crawl_country_sector_def Let_def
      or_empty_def split: sum.splits)

end
